theory Spec2Isabelle
  imports Complex_Main "HOL-Library.Sublist"
begin

section \<open>Synthetic route generation of the transport dashboard (src/app.py)\<close>

text \<open>
  The development embeds \<open>load_transport_infrastructure\<close> and \<open>calculate_routes\<close> of
  \<open>src/app.py\<close>. Conventions of the embedding:
  \<^item> a Python \<open>float\<close> is a \<open>real\<close>: arithmetic, \<open>math.sin\<close>, \<open>math.cos\<close>,
    \<open>math.sqrt\<close> and \<open>math.atan2\<close> are the exact real functions, so the rounding
    error of IEEE double arithmetic is not part of the model; \<open>math.sqrt\<close> keeps
    its \<open>ValueError\<close> on a negative argument;
  \<^item> a Python \<open>str\<close> is a \<open>string\<close> of 8-bit characters; \<open>str.lower\<close> maps the
    ASCII capitals to small letters and leaves every other character alone; the icons of
    the routes are their UTF-8 bytes;
  \<^item> a \<open>dict\<close> literal is an association list in insertion order (all keys of the
    source's tables are distinct);
  \<^item> an exception is a value \<open>Inl e\<close> of the type \<open>error + 'a\<close>.
\<close>

subsection \<open>Python primitives\<close>

datatype error = IndexError | TypeError | ValueError

type_synonym coord = "real \<times> real"

definition lower_char :: "char \<Rightarrow> char" where
  "lower_char c =
     (case map_of (zip ''ABCDEFGHIJKLMNOPQRSTUVWXYZ'' ''abcdefghijklmnopqrstuvwxyz'') c of
        Some l \<Rightarrow> l
      | None \<Rightarrow> c)"

definition lower :: "string \<Rightarrow> string" where
  "lower s = map lower_char s"

text \<open>\<open>needle in haystack\<close> for two strings: the needle occurs as a contiguous block.\<close>

fun str_contains :: "string \<Rightarrow> string \<Rightarrow> bool" where
  "str_contains needle [] = (needle = [])"
| "str_contains needle (c # cs) = (prefix needle (c # cs) \<or> str_contains needle cs)"

text \<open>\<open>int(x)\<close> of a float truncates towards zero.\<close>

definition py_int :: "real \<Rightarrow> int" where
  "py_int x = (if 0 \<le> x then \<lfloor>x\<rfloor> else \<lceil>x\<rceil>)"

text \<open>\<open>round(x)\<close> rounds to the nearest integer, a tie to the even neighbour.\<close>

definition py_round :: "real \<Rightarrow> int" where
  "py_round x =
     (let f = \<lfloor>x\<rfloor>; r = x - of_int f
      in if r < 1 / 2 then f else if 1 / 2 < r then f + 1 else if even f then f else f + 1)"

text \<open>\<open>round(x, 1)\<close>: one decimal digit.\<close>

definition py_round1 :: "real \<Rightarrow> real" where
  "py_round1 x = of_int (py_round (x * 10)) / 10"

text \<open>\<open>str(n)\<close> of an integer, as the f-strings of the route steps format it.\<close>

definition digit_char :: "nat \<Rightarrow> char" where
  "digit_char n = ''0123456789'' ! n"

function str_nat :: "nat \<Rightarrow> string" where
  "str_nat n = (if n < 10 then [digit_char n] else str_nat (n div 10) @ [digit_char (n mod 10)])"
  by pat_completeness auto
termination
  by (relation "measure (\<lambda>n. n)") auto

definition str_int :: "int \<Rightarrow> string" where
  "str_int i = (if i < 0 then CHR ''-'' # str_nat (nat (- i)) else str_nat (nat i))"

subsection \<open>The math module\<close>

definition radians :: "real \<Rightarrow> real" where
  "radians x = x * pi / 180"

definition py_sqrt :: "real \<Rightarrow> error + real" where
  "py_sqrt x = (if x < 0 then Inl ValueError else Inr (sqrt x))"

text \<open>\<open>math.atan2(y, x)\<close>: the angle of the point \<open>(x, y)\<close> in \<open>(-pi, pi]\<close>.\<close>

definition atan2 :: "real \<Rightarrow> real \<Rightarrow> real" where
  "atan2 y x =
     (if 0 < x then arctan (y / x)
      else if x < 0 then (if 0 \<le> y then arctan (y / x) + pi else arctan (y / x) - pi)
      else if 0 < y then pi / 2
      else if y < 0 then - (pi / 2)
      else 0)"

subsection \<open>Data model\<close>

record station =
  name :: string
  lat :: real
  lon :: real

record infrastructure =
  railway_stations :: "station list"
  airports :: "station list"
  bus_stations :: "station list"
  metro_stations :: "station list"

record route_step =
  step :: nat
  description :: string
  time :: string

record route =
  mode :: string
  icon :: string
  duration_minutes :: int
  distance_km :: real
  cost :: int
  emissions :: real
  transfers :: int
  congestion_level :: real
  departure_frequency :: string
  route_steps :: "route_step list"

record routes_result =
  start_location :: string
  end_location :: string
  city :: string
  total_routes :: nat
  routes :: "route list"

subsection \<open>load_transport_infrastructure\<close>

definition mk_station :: "string \<Rightarrow> real \<Rightarrow> real \<Rightarrow> station" where
  "mk_station n la lo = \<lparr>name = n, lat = la, lon = lo\<rparr>"

definition city_infrastructure :: "(string \<times> infrastructure) list" where
  "city_infrastructure =
     [(''Mumbai'',
        \<lparr>railway_stations =
           [mk_station ''Chhatrapati Shivaji Terminus (CST)'' 18.9402 72.8351,
            mk_station ''Dadar Railway Station'' 19.0211 72.8426,
            mk_station ''Lokmanya Tilak Terminus'' 19.0712 72.8889,
            mk_station ''Mumbai Central'' 18.9712 72.8213,
            mk_station ''Bandra Terminus'' 19.0596 72.8295],
         airports =
           [mk_station ''Chhatrapati Shivaji International Airport'' 19.0896 72.8656],
         bus_stations =
           [mk_station ''Mumbai Central Bus Depot'' 18.9693 72.8198,
            mk_station ''Dadar Bus Depot'' 19.0178 72.8478,
            mk_station ''Borivali Bus Depot'' 19.2278 72.8620,
            mk_station ''Thane Bus Depot'' 19.1943 72.9627,
            mk_station ''Kurla Bus Depot'' 19.0703 72.8810],
         metro_stations =
           [mk_station ''Ghatkopar Metro Station'' 19.0866 72.9093,
            mk_station ''Andheri Metro Station'' 19.1197 72.8464,
            mk_station ''Versova Metro Station'' 19.1344 72.8186,
            mk_station ''Saki Naka Metro Station'' 19.0984 72.8889]\<rparr>),
      (''Delhi'',
        \<lparr>railway_stations =
           [mk_station ''New Delhi Railway Station'' 28.6425 77.2198,
            mk_station ''Old Delhi Railway Station'' 28.6586 77.2284,
            mk_station ''Hazrat Nizamuddin Railway Station'' 28.5877 77.2518,
            mk_station ''Anand Vihar Terminal'' 28.6472 77.3016,
            mk_station ''Delhi Sarai Rohilla'' 28.6653 77.1927],
         airports =
           [mk_station ''Indira Gandhi International Airport'' 28.5561 77.0998],
         bus_stations =
           [mk_station ''ISBT Kashmere Gate'' 28.6680 77.2304,
            mk_station ''ISBT Anand Vihar'' 28.6462 77.2821,
            mk_station ''ISBT Sarai Kale Khan'' 28.5903 77.2495,
            mk_station ''Dhaula Kuan Bus Terminal'' 28.5921 77.1536],
         metro_stations =
           [mk_station ''Rajiv Chowk Metro Station'' 28.6333 77.2195,
            mk_station ''Central Secretariat Metro Station'' 28.6147 77.2117,
            mk_station ''Kashmere Gate Metro Station'' 28.6674 77.2295,
            mk_station ''Hauz Khas Metro Station'' 28.5432 77.2044]\<rparr>)]"

text \<open>
  The function is a lookup in the table above with a record of empty lists as the default.
  Its \<open>st.cache_data\<close> decorator memoises a function without effects and is not modelled.
\<close>

definition load_transport_infrastructure :: "string \<Rightarrow> infrastructure" where
  "load_transport_infrastructure selected_city =
     (case map_of city_infrastructure selected_city of
        Some infra \<Rightarrow> infra
      | None \<Rightarrow> \<lparr>railway_stations = [], airports = [], bus_stations = [], metro_stations = []\<rparr>)"

subsection \<open>calculate_routes: coordinate tables and resolution\<close>

definition default_transport_modes :: "string list" where
  "default_transport_modes = [''bus'', ''train'', ''metro'', ''walking'', ''cycling'']"

definition mumbai_coordinates :: "(string \<times> coord) list" where
  "mumbai_coordinates =
     [(''CST'', (18.9402, 72.8351)),
      (''Dadar'', (19.0211, 72.8426)),
      (''Andheri'', (19.1197, 72.8464)),
      (''Borivali'', (19.2278, 72.8620)),
      (''Thane'', (19.1943, 72.9627)),
      (''Bandra'', (19.0596, 72.8295)),
      (''Kurla'', (19.0703, 72.8810)),
      (''Powai'', (19.1214, 72.9097)),
      (''Ghatkopar'', (19.0866, 72.9093)),
      (''Worli'', (19.0217, 72.8170)),
      (''BKC'', (19.0654, 72.8695)),
      (''Juhu'', (19.1075, 72.8263)),
      (''Chembur'', (19.0534, 72.9002)),
      (''Sion'', (19.0379, 72.8691)),
      (''Versova'', (19.1344, 72.8186)),
      (''Airport'', (19.0896, 72.8656)),
      (''Vashi'', (19.0759, 72.9963)),
      (''Mulund'', (19.1763, 72.9572)),
      (''Goregaon'', (19.1663, 72.8526)),
      (''Kandivali'', (19.2065, 72.8570))]"

definition placeholder_coordinates :: "(string \<times> coord) list" where
  "placeholder_coordinates =
     [(''Central'', (20.0, 77.0)),
      (''North'', (20.1, 77.0)),
      (''South'', (19.9, 77.0)),
      (''East'', (20.0, 77.1)),
      (''West'', (20.0, 76.9)),
      (''Airport'', (20.05, 77.05)),
      (''Station'', (20.02, 77.03)),
      (''Downtown'', (20.01, 77.01)),
      (''Suburb'', (20.08, 77.08))]"

definition coordinates_of :: "string \<Rightarrow> (string \<times> coord) list" where
  "coordinates_of cty = (if cty = ''Mumbai'' then mumbai_coordinates else placeholder_coordinates)"

text \<open>
  The matching loop \<open>for name, coords in coordinates.items()\<close>: the pair of
  \<open>start_coords\<close> and \<open>end_coords\<close> is the state, \<open>None\<close> until a key matches.
  A later matching key overwrites an earlier one.
\<close>

fun match_locations ::
  "(string \<times> coord) list \<Rightarrow> string \<Rightarrow> string \<Rightarrow> coord option \<times> coord option
     \<Rightarrow> coord option \<times> coord option" where
  "match_locations [] start_loc end_loc acc = acc"
| "match_locations ((nm, coords) # rest) start_loc end_loc (start_coords, end_coords) =
     match_locations rest start_loc end_loc
       (if str_contains (lower nm) (lower start_loc) then Some coords else start_coords,
        if str_contains (lower nm) (lower end_loc) then Some coords else end_coords)"

text \<open>
  \<open>coordinates.get(list(coordinates.keys())[i])\<close> for \<open>i = 0\<close> and \<open>i = -1\<close>: indexing
  an empty key list raises \<open>IndexError\<close>; \<open>get\<close> returns \<open>None\<close> for a missing key.
\<close>

definition get_first :: "(string \<times> coord) list \<Rightarrow> error + coord option" where
  "get_first coordinates =
     (case map fst coordinates of
        [] \<Rightarrow> Inl IndexError
      | k # _ \<Rightarrow> Inr (map_of coordinates k))"

definition get_last :: "(string \<times> coord) list \<Rightarrow> error + coord option" where
  "get_last coordinates =
     (case rev (map fst coordinates) of
        [] \<Rightarrow> Inl IndexError
      | k # _ \<Rightarrow> Inr (map_of coordinates k))"

definition resolve_coords ::
  "(string \<times> coord) list \<Rightarrow> string \<Rightarrow> string \<Rightarrow> error + (coord option \<times> coord option)" where
  "resolve_coords coordinates start_loc end_loc =
     (case match_locations coordinates start_loc end_loc (None, None) of
        (start_coords, end_coords) \<Rightarrow>
          (case (if start_coords = None then get_first coordinates else Inr start_coords) of
             Inl e \<Rightarrow> Inl e
           | Inr start_coords' \<Rightarrow>
               (case (if end_coords = None then get_last coordinates else Inr end_coords) of
                  Inl e \<Rightarrow> Inl e
                | Inr end_coords' \<Rightarrow> Inr (start_coords', end_coords'))))"

subsection \<open>calculate_routes: the haversine distance\<close>

text \<open>
  The nested function \<open>haversine\<close>; its local \<open>a\<close> is named \<open>haversine_a\<close> so that
  the properties can speak of it.
\<close>

definition haversine_a :: "real \<Rightarrow> real \<Rightarrow> real \<Rightarrow> real \<Rightarrow> real" where
  "haversine_a lat1 lon1 lat2 lon2 =
     (let dlat = radians (lat2 - lat1);
          dlon = radians (lon2 - lon1)
      in (sin (dlat / 2))\<^sup>2 + cos (radians lat1) * cos (radians lat2) * (sin (dlon / 2))\<^sup>2)"

definition haversine :: "real \<Rightarrow> real \<Rightarrow> real \<Rightarrow> real \<Rightarrow> error + real" where
  "haversine lat1 lon1 lat2 lon2 =
     (let R = 6371;
          a = haversine_a lat1 lon1 lat2 lon2
      in case py_sqrt a of
           Inl e \<Rightarrow> Inl e
         | Inr sa \<Rightarrow>
             (case py_sqrt (1 - a) of
                Inl e \<Rightarrow> Inl e
              | Inr sb \<Rightarrow> Inr (R * (2 * atan2 sa sb))))"

text \<open>
  The distance of a query: the resolved coordinates are subscripted (\<open>start_coords[0]\<close>),
  which raises \<open>TypeError\<close> on \<open>None\<close>.
\<close>

definition query_distance :: "string \<Rightarrow> string \<Rightarrow> string \<Rightarrow> error + (real \<times> coord)" where
  "query_distance start_loc end_loc cty =
     (case resolve_coords (coordinates_of cty) start_loc end_loc of
        Inl e \<Rightarrow> Inl e
      | Inr (Some (lat1, lon1), Some (lat2, lon2)) \<Rightarrow>
          (case haversine lat1 lon1 lat2 lon2 of
             Inl e \<Rightarrow> Inl e
           | Inr distance \<Rightarrow> Inr (distance, (lat1, lon1)))
      | Inr _ \<Rightarrow> Inl TypeError)"

subsection \<open>calculate_routes: the route of each transport mode\<close>

definition mk_step :: "nat \<Rightarrow> string \<Rightarrow> string \<Rightarrow> route_step" where
  "mk_step n d t = \<lparr>step = n, description = d, time = t\<rparr>"

definition bus_route :: "real \<Rightarrow> route" where
  "bus_route distance =
     \<lparr>mode = ''bus'',
      icon = [CHR 0xF0, CHR 0x9F, CHR 0x9A, CHR 0x8C],
      duration_minutes = py_int (distance * 4),
      distance_km = py_round1 (distance * 1.3),
      cost = py_int (distance * 5),
      emissions = py_round1 (distance * 0.7),
      transfers = (if 5 < distance then 1 else 0),
      congestion_level = 0.7,
      departure_frequency = ''Every 10-15 minutes'',
      route_steps =
        [mk_step 1 ''Walk to nearest bus stop'' ''5 min'',
         mk_step 2 (''Take Bus Route '' @ str_int (100 + py_int distance))
           (str_int (py_int (distance * 3)) @ '' min''),
         mk_step 3 ''Walk to destination'' ''5 min'']\<rparr>"

definition train_route :: "real \<Rightarrow> coord \<Rightarrow> route" where
  "train_route distance start_coords =
     \<lparr>mode = ''train'',
      icon = [CHR 0xF0, CHR 0x9F, CHR 0x9A, CHR 0x86],
      duration_minutes = py_int (distance * 2),
      distance_km = py_round1 (distance * 1.2),
      cost = py_int (distance * 3),
      emissions = py_round1 (distance * 0.4),
      transfers = (if distance < 10 then 0 else 1),
      congestion_level = 0.8,
      departure_frequency = ''Every 15-20 minutes'',
      route_steps =
        [mk_step 1 ''Walk to nearest railway station'' ''8 min'',
         mk_step 2
           (''Take '' @ (if snd start_coords < 72.9 then ''Western'' else ''Central'')
              @ '' Line train'')
           (str_int (py_int (distance * 1.5)) @ '' min''),
         mk_step 3 ''Walk to destination'' ''10 min'']\<rparr>"

definition metro_route :: "real \<Rightarrow> route" where
  "metro_route distance =
     \<lparr>mode = ''metro'',
      icon = [CHR 0xF0, CHR 0x9F, CHR 0x9A, CHR 0x87],
      duration_minutes = py_int (distance * 1.5),
      distance_km = py_round1 (distance * 1.1),
      cost = py_int (distance * 4),
      emissions = py_round1 (distance * 0.2),
      transfers = (if distance < 8 then 0 else 1),
      congestion_level = 0.6,
      departure_frequency = ''Every 5-8 minutes'',
      route_steps =
        [mk_step 1 ''Walk to nearest metro station'' ''6 min'',
         mk_step 2 ''Take Metro Line 1'' (str_int (py_int (distance * 1.2)) @ '' min''),
         mk_step 3 ''Walk to destination'' ''7 min'']\<rparr>"

definition walking_route :: "real \<Rightarrow> string \<Rightarrow> string \<Rightarrow> route" where
  "walking_route distance start_loc end_loc =
     \<lparr>mode = ''walking'',
      icon = [CHR 0xF0, CHR 0x9F, CHR 0x9A, CHR 0xB6],
      duration_minutes = py_int (distance * 12),
      distance_km = py_round1 distance,
      cost = 0,
      emissions = 0,
      transfers = 0,
      congestion_level = 0.1,
      departure_frequency = ''On demand'',
      route_steps =
        [mk_step 1 (''Walk from '' @ start_loc @ '' to '' @ end_loc)
           (str_int (py_int (distance * 12)) @ '' min'')]\<rparr>"

definition cycling_route :: "real \<Rightarrow> string \<Rightarrow> string \<Rightarrow> route" where
  "cycling_route distance start_loc end_loc =
     \<lparr>mode = ''cycling'',
      icon = [CHR 0xF0, CHR 0x9F, CHR 0x9A, CHR 0xB2],
      duration_minutes = py_int (distance * 4),
      distance_km = py_round1 (distance * 1.05),
      cost = (if distance < 3 then 0 else 20),
      emissions = 0,
      transfers = 0,
      congestion_level = 0.3,
      departure_frequency = ''On demand'',
      route_steps =
        [mk_step 1 ''Pick up bicycle'' ''3 min'',
         mk_step 2 (''Cycle from '' @ start_loc @ '' to '' @ end_loc)
           (str_int (py_int (distance * 4)) @ '' min'')]\<rparr>"

definition metro_cities :: "string list" where
  "metro_cities = [''Mumbai'', ''Delhi'', ''Bangalore'', ''Chennai'', ''Hyderabad'', ''Kolkata'']"

text \<open>
  The five \<open>if "..." in transport_modes\<close> blocks in the order of the source; each one
  appends at most one route to \<open>routes\<close>.
\<close>

definition generate_routes ::
  "string list \<Rightarrow> string \<Rightarrow> string \<Rightarrow> string \<Rightarrow> real \<Rightarrow> coord \<Rightarrow> route list" where
  "generate_routes transport_modes start_loc end_loc cty distance start_coords =
     (if ''bus'' \<in> set transport_modes then [bus_route distance] else [])
     @ (if ''train'' \<in> set transport_modes
        then (if 3 < distance then [train_route distance start_coords] else [])
        else [])
     @ (if ''metro'' \<in> set transport_modes
        then (if cty \<in> set metro_cities then [metro_route distance] else [])
        else [])
     @ (if ''walking'' \<in> set transport_modes
        then (if distance < 5 then [walking_route distance start_loc end_loc] else [])
        else [])
     @ (if ''cycling'' \<in> set transport_modes
        then (if distance < 10 then [cycling_route distance start_loc end_loc] else [])
        else [])"

subsection \<open>calculate_routes\<close>

text \<open>
  \<open>routes.sort(key=...)\<close> is a stable sort, as \<open>sort_key\<close> is. The argument
  \<open>transport_modes\<close> is \<open>None\<close> when the caller leaves it out.
\<close>

definition requested_modes :: "string list option \<Rightarrow> string list" where
  "requested_modes transport_modes =
     (case transport_modes of None \<Rightarrow> default_transport_modes | Some ms \<Rightarrow> ms)"

definition calculate_routes ::
  "string \<Rightarrow> string \<Rightarrow> string \<Rightarrow> string list option \<Rightarrow> error + routes_result" where
  "calculate_routes start_loc end_loc cty transport_modes =
     (let modes = requested_modes transport_modes
      in case query_distance start_loc end_loc cty of
           Inl e \<Rightarrow> Inl e
         | Inr (distance, start_coords) \<Rightarrow>
             (let rs = sort_key duration_minutes
                         (generate_routes modes start_loc end_loc cty distance start_coords)
              in Inr \<lparr>start_location = start_loc, end_location = end_loc, city = cty,
                      total_routes = length rs, routes = rs\<rparr>))"

subsection \<open>The documented contract, for comparison with the code\<close>

text \<open>
  The availability predicate of each mode as the specification lists it; a mode name the
  function does not know has no route.
\<close>

definition mode_available :: "string \<Rightarrow> real \<Rightarrow> string \<Rightarrow> bool" where
  "mode_available m d cty =
     (if m = ''bus'' then True
      else if m = ''train'' then 3 < d
      else if m = ''metro'' then cty \<in> set metro_cities
      else if m = ''walking'' then d < 5
      else if m = ''cycling'' then d < 10
      else False)"

text \<open>
  The numeric fields of a route, in the order of the specification's table: duration,
  distance, cost, emissions, transfers, congestion.
\<close>

definition route_fields :: "route \<Rightarrow> int \<times> real \<times> int \<times> real \<times> int \<times> real" where
  "route_fields r =
     (duration_minutes r, distance_km r, cost r, emissions r, transfers r, congestion_level r)"

text \<open>
  The table of per-mode formulas with the duration and the cost truncated (\<open>int\<close>),
  the distance and the emissions rounded to one decimal.
\<close>

definition table_fields :: "string \<Rightarrow> real \<Rightarrow> int \<times> real \<times> int \<times> real \<times> int \<times> real" where
  "table_fields m d =
     (if m = ''bus'' then
        (py_int (4 * d), py_round1 (1.3 * d), py_int (5 * d), py_round1 (0.7 * d),
         (if 5 < d then 1 else 0), 0.7)
      else if m = ''train'' then
        (py_int (2 * d), py_round1 (1.2 * d), py_int (3 * d), py_round1 (0.4 * d),
         (if d < 10 then 0 else 1), 0.8)
      else if m = ''metro'' then
        (py_int (1.5 * d), py_round1 (1.1 * d), py_int (4 * d), py_round1 (0.2 * d),
         (if d < 8 then 0 else 1), 0.6)
      else if m = ''walking'' then
        (py_int (12 * d), py_round1 d, 0, 0, 0, 0.1)
      else
        (py_int (4 * d), py_round1 (1.05 * d), (if d < 3 then 0 else 20), 0, 0, 0.3))"

section \<open>Properties\<close>

subsection \<open>The haversine distance is total\<close>

lemma abs_prod_sum_le_one:
  fixes s1 s2 c1 c2 :: real
  assumes "s1\<^sup>2 + c1\<^sup>2 = 1" "s2\<^sup>2 + c2\<^sup>2 = 1"
  shows "\<bar>s1 * s2\<bar> + \<bar>c1 * c2\<bar> \<le> 1"
proof -
  have "0 \<le> (\<bar>s1\<bar> - \<bar>s2\<bar>)\<^sup>2 + (\<bar>c1\<bar> - \<bar>c2\<bar>)\<^sup>2" by simp
  also have "\<dots> = (s1\<^sup>2 + c1\<^sup>2) + (s2\<^sup>2 + c2\<^sup>2) - 2 * (\<bar>s1\<bar> * \<bar>s2\<bar> + \<bar>c1\<bar> * \<bar>c2\<bar>)"
    by (simp add: power2_eq_square algebra_simps)
  finally show ?thesis using assms by (simp add: abs_mult)
qed

lemma sin_half_squared: "(sin (x / 2))\<^sup>2 = (1 - cos x) / 2" for x :: real
  using cos_double_sin [of "x / 2"] by simp

text \<open>The quantity \<open>a\<close> is half of one minus the cosine of the central angle.\<close>

lemma haversine_a_alt:
  "haversine_a lat1 lon1 lat2 lon2 =
     (1 - (sin (radians lat1) * sin (radians lat2)
           + cos (radians lat1) * cos (radians lat2) * cos (radians (lon2 - lon1)))) / 2"
proof -
  have r: "radians (lat2 - lat1) = radians lat2 - radians lat1"
    by (simp add: radians_def algebra_simps diff_divide_distrib)
  show ?thesis
    unfolding haversine_a_def Let_def sin_half_squared r cos_diff
    by (simp add: field_simps)
qed

lemma haversine_a_range:
  "0 \<le> haversine_a lat1 lon1 lat2 lon2 \<and> haversine_a lat1 lon1 lat2 lon2 \<le> 1"
proof -
  define s1 where "s1 = sin (radians lat1)"
  define s2 where "s2 = sin (radians lat2)"
  define c1 where "c1 = cos (radians lat1)"
  define c2 where "c2 = cos (radians lat2)"
  define k where "k = cos (radians (lon2 - lon1))"
  have h: "\<bar>s1 * s2\<bar> + \<bar>c1 * c2\<bar> \<le> 1"
    by (rule abs_prod_sum_le_one) (simp_all add: s1_def s2_def c1_def c2_def)
  have k: "\<bar>k\<bar> \<le> 1" by (simp add: k_def)
  have "\<bar>c1 * c2 * k\<bar> \<le> \<bar>c1 * c2\<bar> * 1"
    unfolding abs_mult [of "c1 * c2" k] by (rule mult_left_mono [OF k]) simp
  with h have "\<bar>s1 * s2 + c1 * c2 * k\<bar> \<le> 1" by linarith
  then show ?thesis
    unfolding haversine_a_alt s1_def [symmetric] s2_def [symmetric] c1_def [symmetric]
      c2_def [symmetric] k_def [symmetric]
    by (simp add: abs_le_iff)
qed

text \<open>So neither square root raises, whatever the four arguments are.\<close>

lemma haversine_eq:
  "haversine lat1 lon1 lat2 lon2 =
     Inr (6371 * (2 * atan2 (sqrt (haversine_a lat1 lon1 lat2 lon2))
                           (sqrt (1 - haversine_a lat1 lon1 lat2 lon2))))"
  using haversine_a_range [of lat1 lon1 lat2 lon2]
  by (simp add: haversine_def py_sqrt_def Let_def)

lemma atan2_nonneg: "0 \<le> y \<Longrightarrow> 0 \<le> x \<Longrightarrow> 0 \<le> atan2 y x"
  by (simp add: atan2_def zero_le_arctan_iff)

lemma haversine_nonneg: "\<exists>d. haversine lat1 lon1 lat2 lon2 = Inr d \<and> 0 \<le> d"
  using haversine_a_range [of lat1 lon1 lat2 lon2]
  by (simp add: haversine_eq atan2_nonneg)

lemma haversine_a_same: "haversine_a la lo la lo = 0"
  by (simp add: haversine_a_def radians_def)

lemma haversine_a_sym: "haversine_a lat1 lon1 lat2 lon2 = haversine_a lat2 lon2 lat1 lon1"
proof -
  have "radians (lon2 - lon1) = - radians (lon1 - lon2)"
    by (simp add: radians_def field_simps)
  then have "cos (radians (lon2 - lon1)) = cos (radians (lon1 - lon2))"
    by (simp only: cos_minus)
  then show ?thesis by (simp add: haversine_a_alt algebra_simps)
qed

text \<open>
  Claim C6. The haversine distance of a point to itself is 0, and the distance from A to
  B is the distance from B to A (over the reals; neither call raises).
\<close>

theorem haversine_same_point_and_symmetric:
  "haversine la lo la lo = Inr 0
   \<and> haversine lat1 lon1 lat2 lon2 = haversine lat2 lon2 lat1 lon1"
  using haversine_a_sym [of lat1 lon1 lat2 lon2]
  by (simp add: haversine_eq haversine_a_same atan2_def)

subsection \<open>Resolution of the locations and totality of the query\<close>

lemma str_contains_sublist: "str_contains needle hay \<longleftrightarrow> sublist needle hay"
  by (induction hay) (simp_all add: sublist_Cons_right)

lemma match_locations_last:
  "match_locations cs s e (a, b) =
     ((if filter (\<lambda>kv. str_contains (lower (fst kv)) (lower s)) cs = [] then a
       else Some (snd (last (filter (\<lambda>kv. str_contains (lower (fst kv)) (lower s)) cs)))),
      (if filter (\<lambda>kv. str_contains (lower (fst kv)) (lower e)) cs = [] then b
       else Some (snd (last (filter (\<lambda>kv. str_contains (lower (fst kv)) (lower e)) cs)))))"
proof (induction cs arbitrary: a b)
  case Nil
  show ?case by simp
next
  case (Cons x cs)
  obtain k v where x: "x = (k, v)" by (cases x)
  show ?case unfolding x by (simp add: Cons.IH)
qed

lemma get_first_eq: "cs \<noteq> [] \<Longrightarrow> get_first cs = Inr (Some (snd (hd cs)))"
  by (cases cs) (auto simp: get_first_def)

lemma get_last_eq:
  assumes "cs \<noteq> []" "distinct (map fst cs)"
  shows "get_last cs = Inr (Some (snd (last cs)))"
proof -
  have "last cs \<in> set cs" using assms(1) by simp
  then have "map_of cs (fst (last cs)) = Some (snd (last cs))"
    using assms(2) by simp
  moreover obtain k ks where "rev (map fst cs) = k # ks" "k = fst (last cs)"
    using assms(1) by (cases cs rule: rev_cases) auto
  ultimately show ?thesis by (simp add: get_last_def)
qed

lemma resolve_coords_eq:
  assumes "cs \<noteq> []" "distinct (map fst cs)"
  shows "resolve_coords cs s e =
     Inr (Some (if filter (\<lambda>kv. str_contains (lower (fst kv)) (lower s)) cs = [] then snd (hd cs)
                else snd (last (filter (\<lambda>kv. str_contains (lower (fst kv)) (lower s)) cs))),
          Some (if filter (\<lambda>kv. str_contains (lower (fst kv)) (lower e)) cs = [] then snd (last cs)
                else snd (last (filter (\<lambda>kv. str_contains (lower (fst kv)) (lower e)) cs))))"
  using assms by (simp add: resolve_coords_def match_locations_last get_first_eq get_last_eq)

lemma coordinates_of_ok: "coordinates_of c \<noteq> [] \<and> distinct (map fst (coordinates_of c))"
  by (simp add: coordinates_of_def mumbai_coordinates_def placeholder_coordinates_def)

lemma query_distance_total:
  "\<exists>d sc. query_distance s e c = Inr (d, sc) \<and> 0 \<le> d"
proof -
  obtain la1 lo1 la2 lo2 where r: "resolve_coords (coordinates_of c) s e = Inr (Some (la1, lo1), Some (la2, lo2))"
    using resolve_coords_eq [of "coordinates_of c" s e] coordinates_of_ok [of c]
    by (metis surj_pair)
  obtain d where "haversine la1 lo1 la2 lo2 = Inr d" "0 \<le> d"
    using haversine_nonneg by blast
  then show ?thesis by (simp add: query_distance_def r)
qed

lemma calculate_routes_eq:
  "query_distance s e c = Inr (d, sc) \<Longrightarrow>
   calculate_routes s e c tm =
     Inr \<lparr>start_location = s, end_location = e, city = c,
          total_routes = length (generate_routes (requested_modes tm) s e c d sc),
          routes = sort_key duration_minutes (generate_routes (requested_modes tm) s e c d sc)\<rparr>"
  by (simp add: calculate_routes_def Let_def)

lemma mode_simps:
  "mode (bus_route d) = ''bus''" "mode (train_route d sc) = ''train''"
  "mode (metro_route d) = ''metro''" "mode (walking_route d s e) = ''walking''"
  "mode (cycling_route d s e) = ''cycling''"
  by (simp_all add: bus_route_def train_route_def metro_route_def walking_route_def cycling_route_def)

text \<open>
  Claim C2. For every query and every list of requested modes the call returns, and the
  returned routes are in non-decreasing order of \<open>duration_minutes\<close>.
\<close>

theorem routes_sorted_by_duration:
  "\<exists>r. calculate_routes s e c tm = Inr r \<and> sorted (map duration_minutes (routes r))"
proof -
  obtain d sc where "query_distance s e c = Inr (d, sc)" using query_distance_total by blast
  then show ?thesis by (simp add: calculate_routes_eq)
qed

lemma count_mode_le_one:
  "length (filter (\<lambda>x. mode x = m) (generate_routes ms s e c d sc)) \<le> 1"
proof -
  consider "m = ''bus''" | "m = ''train''" | "m = ''metro''" | "m = ''walking''"
    | "m = ''cycling''"
    | "m \<noteq> ''bus''" "m \<noteq> ''train''" "m \<noteq> ''metro''" "m \<noteq> ''walking''" "m \<noteq> ''cycling''"
    by blast
  then show ?thesis
    by cases (simp_all add: generate_routes_def mode_simps)
qed

lemma length_generate_le: "length (generate_routes ms s e c d sc) \<le> 5"
  by (simp add: generate_routes_def)

lemma bus_count:
  "''bus'' \<in> set ms \<Longrightarrow> length (filter (\<lambda>x. mode x = ''bus'') (generate_routes ms s e c d sc)) = 1"
  by (simp add: generate_routes_def mode_simps)

text \<open>
  Claim C10. Whenever \<open>bus\<close> is among the requested modes, the result holds exactly one
  bus route and so is not empty, whatever the distance and the city are; every mode name
  labels at most one returned route; \<open>total_routes\<close> is at most 5 and is the length of
  the route list.
\<close>

theorem bus_always_and_route_count:
  "\<exists>r. calculate_routes s e c tm = Inr r
     \<and> (''bus'' \<in> set (requested_modes tm) \<longrightarrow>
          length (filter (\<lambda>x. mode x = ''bus'') (routes r)) = 1 \<and> routes r \<noteq> [])
     \<and> (\<forall>m. length (filter (\<lambda>x. mode x = m) (routes r)) \<le> 1)
     \<and> total_routes r \<le> 5
     \<and> total_routes r = length (routes r)"
proof -
  obtain d sc where q: "query_distance s e c = Inr (d, sc)" using query_distance_total by blast
  let ?g = "generate_routes (requested_modes tm) s e c d sc"
  have f: "length (filter P (sort_key duration_minutes ?g)) = length (filter P ?g)" for P
    by (simp add: filter_sort)
  have ne: "''bus'' \<in> set (requested_modes tm) \<Longrightarrow> sort_key duration_minutes ?g \<noteq> []"
    using length_sort [of duration_minutes ?g] by (auto simp: generate_routes_def simp del: length_sort)
  have c1: "\<forall>m. length (filter (\<lambda>x. mode x = m) (sort_key duration_minutes ?g)) \<le> 1"
    unfolding f using count_mode_le_one by blast
  have b1: "''bus'' \<in> set (requested_modes tm) \<longrightarrow>
      length (filter (\<lambda>x. mode x = ''bus'') (sort_key duration_minutes ?g)) = 1
      \<and> sort_key duration_minutes ?g \<noteq> []"
    unfolding f using ne bus_count by blast
  have l5: "length ?g \<le> 5" by (rule length_generate_le)
  show ?thesis
    unfolding calculate_routes_eq [OF q]
    using c1 b1 l5 by simp
qed

theorem bus_always_and_route_count_witness:
  "\<exists>r. calculate_routes ''CST'' ''Dadar'' ''Mumbai'' None = Inr r
     \<and> length (filter (\<lambda>x. mode x = ''bus'') (routes r)) = 1 \<and> routes r \<noteq> []
     \<and> length (filter (\<lambda>x. mode x = ''metro'') (routes r)) \<le> 1
     \<and> total_routes r \<le> 5 \<and> total_routes r = length (routes r)"
proof -
  have b: "''bus'' \<in> set (requested_modes None)"
    by (simp add: requested_modes_def default_transport_modes_def)
  show ?thesis
    using bus_always_and_route_count [of "''CST''" "''Dadar''" "''Mumbai''" None] b by blast
qed

subsection \<open>Bounds of pi, sine, cosine and arc sine\<close>

lemma sum_lessThan_10:
  "(\<Sum>m<10. f m) = f 0 + f 1 + f 2 + f 3 + f 4 + f 5 + f 6 + f 7 + f 8 + (f 9 :: real)"
  for f :: "nat \<Rightarrow> real"
  by (simp add: numeral_eq_Suc lessThan_Suc)

lemma cos_coeff_values:
  "cos_coeff 0 = 1" "cos_coeff 1 = 0" "cos_coeff 2 = - 1 / 2" "cos_coeff 3 = 0"
  "cos_coeff 4 = 1 / 24" "cos_coeff 5 = 0" "cos_coeff 6 = - 1 / 720" "cos_coeff 7 = 0"
  "cos_coeff 8 = 1 / 40320" "cos_coeff 9 = 0"
  by (simp_all add: cos_coeff_def fact_numeral)

lemma cos_poly10:
  "(\<Sum>m<10. cos_coeff m * x ^ m) = 1 - x\<^sup>2 / 2 + x ^ 4 / 24 - x ^ 6 / 720 + x ^ 8 / 40320"
  for x :: real
  unfolding sum_lessThan_10 cos_coeff_values by simp

lemma cos_taylor10:
  fixes x :: real
  assumes "0 < x"
  shows "\<bar>cos x - (1 - x\<^sup>2 / 2 + x ^ 4 / 24 - x ^ 6 / 720 + x ^ 8 / 40320)\<bar> \<le> x ^ 10 / 3628800"
proof -
  obtain t where t: "cos x = (\<Sum>m<10. cos_coeff m * x ^ m) + (cos (t + 1/2 * real 10 * pi) / fact 10) * x ^ 10"
    using Maclaurin_cos_expansion2 [OF assms, of 10] by auto
  have f: "fact 10 = (3628800::real)" by (simp add: fact_numeral)
  have "\<bar>cos x - (\<Sum>m<10. cos_coeff m * x ^ m)\<bar> = \<bar>cos (t + 1/2 * real 10 * pi)\<bar> * (x ^ 10 / 3628800)"
    unfolding t f using assms by (simp add: abs_mult)
  also have "\<dots> \<le> 1 * (x ^ 10 / 3628800)"
    by (rule mult_right_mono) (use assms in simp_all)
  finally show ?thesis by (simp add: cos_poly10)
qed

lemma pi_gt_314: "3.14 < pi"
proof (rule ccontr)
  assume "\<not> 3.14 < pi"
  then have le: "pi / 2 \<le> 1.57" by simp
  have "cos 1.57 \<le> cos (pi / 2)"
    by (rule cos_monotone_0_pi_le) (use le pi_ge_two in simp_all)
  then have "cos (1.57::real) \<le> 0" by simp
  moreover have "0 < cos (1.57::real)"
  proof -
    have "(0::real) < (1 - 1.57\<^sup>2 / 2 + 1.57 ^ 4 / 24 - 1.57 ^ 6 / 720 + 1.57 ^ 8 / 40320)
        - 1.57 ^ 10 / 3628800"
      by (simp add: power_divide)
    moreover have "\<bar>cos (1.57::real) - (1 - 1.57\<^sup>2 / 2 + 1.57 ^ 4 / 24 - 1.57 ^ 6 / 720 + 1.57 ^ 8 / 40320)\<bar>
        \<le> 1.57 ^ 10 / 3628800"
      by (rule cos_taylor10) simp
    ultimately show ?thesis by linarith
  qed
  ultimately show False by simp
qed

lemma pi_lt_3142: "pi < 3.142"
proof (rule ccontr)
  assume "\<not> pi < 3.142"
  then have le: "1.571 \<le> pi / 2" by simp
  have "0 \<le> cos (1.571::real)"
    by (rule cos_ge_zero) (use le in simp_all)
  moreover have "cos (1.571::real) < 0"
  proof -
    have "(1 - 1.571\<^sup>2 / 2 + 1.571 ^ 4 / 24 - 1.571 ^ 6 / 720 + 1.571 ^ 8 / 40320)
        + 1.571 ^ 10 / 3628800 < (0::real)"
      by (simp add: power_divide)
    moreover have "\<bar>cos (1.571::real) - (1 - 1.571\<^sup>2 / 2 + 1.571 ^ 4 / 24 - 1.571 ^ 6 / 720 + 1.571 ^ 8 / 40320)\<bar>
        \<le> 1.571 ^ 10 / 3628800"
      by (rule cos_taylor10) simp
    ultimately show ?thesis by linarith
  qed
  ultimately show False by simp
qed

lemma sin_lower: "0 \<le> x \<Longrightarrow> x - x ^ 3 / 6 \<le> sin x" for x :: real
proof -
  assume x: "0 \<le> x"
  have "(\<Sum>m<3. sin_coeff m * x ^ m) = sin_coeff 0 * x ^ 0 + sin_coeff 1 * x ^ 1 + sin_coeff 2 * x ^ 2"
    by (simp add: numeral_3_eq_3 lessThan_Suc numeral_2_eq_2)
  also have "\<dots> = x"
    by (simp add: sin_coeff_def)
  finally have "(\<Sum>m<3. sin_coeff m * x ^ m) = x" .
  moreover have "inverse (fact 3) * \<bar>x\<bar> ^ 3 = x ^ 3 / 6"
  proof -
    have "fact 3 = (6::real)" by (simp add: fact_numeral)
    moreover have "\<bar>x\<bar> = x" using x by simp
    ultimately show ?thesis by (simp add: field_simps)
  qed
  ultimately have "\<bar>sin x - x\<bar> \<le> x ^ 3 / 6"
    using Maclaurin_sin_bound [of x 3] by simp
  then show ?thesis by linarith
qed

lemma cos_lower: "1 - x\<^sup>2 / 2 \<le> cos x" for x :: real
proof -
  have "\<bar>sin (x / 2)\<bar> \<le> \<bar>x / 2\<bar>" by (rule abs_sin_x_le_abs_x)
  then have "(sin (x / 2))\<^sup>2 \<le> (x / 2)\<^sup>2" by (simp only: abs_le_square_iff)
  moreover have "cos x = 1 - 2 * (sin (x / 2))\<^sup>2"
    using cos_double_sin [of "x / 2"] by simp
  ultimately show ?thesis by (simp add: power2_eq_square)
qed

lemma arctan_sqrt_ratio:
  fixes a :: real
  assumes "0 \<le> a" "a < 1"
  shows "arctan (sqrt a / sqrt (1 - a)) = arcsin (sqrt a)"
proof -
  have s: "0 \<le> sqrt a" "sqrt a < 1" using assms by (simp_all add: real_sqrt_lt_1_iff)
  have b: "- (pi / 2) < arcsin (sqrt a)" "arcsin (sqrt a) < pi / 2"
    using arcsin_lt_bounded [of "sqrt a"] s by simp_all
  have "sin (arcsin (sqrt a)) = sqrt a"
    by (rule sin_arcsin) (use s in linarith)+
  moreover have "cos (arcsin (sqrt a)) = sqrt (1 - a)"
  proof -
    have "cos (arcsin (sqrt a)) = sqrt (1 - (sqrt a)\<^sup>2)"
      by (rule cos_arcsin) (use s in linarith)+
    then show ?thesis using assms by simp
  qed
  ultimately have "tan (arcsin (sqrt a)) = sqrt a / sqrt (1 - a)"
    by (simp add: tan_def)
  then show ?thesis using arctan_unique [OF b] by simp
qed

lemma sin_between:
  fixes x :: real
  assumes "0 \<le> l" "l \<le> x" "x \<le> u"
  shows "l - u ^ 3 / 6 \<le> sin x \<and> sin x \<le> u"
proof -
  have x0: "0 \<le> x" using assms by linarith
  have "x ^ 3 \<le> u ^ 3" by (rule power_mono) (use assms x0 in simp_all)
  moreover have "x - x ^ 3 / 6 \<le> sin x" by (rule sin_lower [OF x0])
  moreover have "sin x \<le> x" by (rule sin_x_le_x [OF x0])
  ultimately show ?thesis using assms by linarith
qed

lemma cos_between:
  fixes x :: real
  assumes "0 \<le> x" "x \<le> u"
  shows "1 - u\<^sup>2 / 2 \<le> cos x \<and> cos x \<le> 1"
proof -
  have "x\<^sup>2 \<le> u\<^sup>2" by (rule power_mono) (use assms in simp_all)
  moreover have "1 - x\<^sup>2 / 2 \<le> cos x" by (rule cos_lower)
  ultimately show ?thesis using cos_le_one [of x] by linarith
qed

lemma atan2_sqrt_arcsin:
  fixes a :: real
  assumes "0 \<le> a" "a < 1"
  shows "atan2 (sqrt a) (sqrt (1 - a)) = arcsin (sqrt a)"
proof -
  have "0 < sqrt (1 - a)" using assms by simp
  then show ?thesis using arctan_sqrt_ratio [OF assms] by (simp add: atan2_def)
qed

lemma arcsin_sqrt_between:
  fixes a l u :: real
  assumes l: "0 \<le> l" "l\<^sup>2 \<le> a"
    and u: "0 \<le> u - u ^ 3 / 6" "a \<le> (u - u ^ 3 / 6)\<^sup>2" "0 \<le> u" "u \<le> 1"
  shows "l \<le> arcsin (sqrt a) \<and> arcsin (sqrt a) \<le> u"
proof -
  have a0: "0 \<le> a" using l(2) zero_le_power2 [of l] by linarith
  have s1: "l \<le> sqrt a" by (rule real_le_rsqrt [OF l(2)])
  have s2: "sqrt a \<le> u - u ^ 3 / 6" by (rule real_le_lsqrt [OF u(1) u(2)])
  have su: "u - u ^ 3 / 6 \<le> sin u" by (rule sin_lower [OF u(3)])
  have s3: "sqrt a \<le> sin u" using s2 su by linarith
  have s4: "sqrt a \<le> 1" using s3 sin_le_one [of u] by linarith
  have s0: "- 1 \<le> sqrt a" using a0 real_sqrt_ge_zero [of a] by linarith
  have hp: "1 \<le> pi / 2" using pi_ge_two by simp
  have "arcsin (sqrt a) \<le> u"
    using arcsin_le_iff [of "sqrt a" u] s0 s4 s3 u hp by simp
  moreover have "sin l \<le> sqrt a" using sin_x_le_x [OF l(1)] s1 by linarith
  then have "l \<le> arcsin (sqrt a)"
    using le_arcsin_iff [of "sqrt a" l] s0 s4 s1 l hp by simp
  ultimately show ?thesis by simp
qed

subsection \<open>The distance from CST to Dadar\<close>

text \<open>
  The two coordinates are 0.0809 degrees of latitude and 0.0075 degrees of longitude
  apart; with \<open>3.14 < pi < 3.142\<close> the quantity \<open>a\<close> lies between the squares of
  \<open>9 / 12742\<close> and \<open>0.000715\<close>.
\<close>

lemma cst_dadar_a:
  "(9 / 12742)\<^sup>2 \<le> haversine_a 18.9402 72.8351 19.0211 72.8426
   \<and> haversine_a 18.9402 72.8351 19.0211 72.8426 \<le> (0.000715 :: real)\<^sup>2"
proof -
  define x :: real where "x = radians (19.0211 - 18.9402) / 2"
  define y :: real where "y = radians (72.8426 - 72.8351) / 2"
  define p1 :: real where "p1 = radians 18.9402"
  define p2 :: real where "p2 = radians 19.0211"
  note pb = pi_gt_314 pi_lt_3142
  have xb: "0.000705 \<le> x" "x \<le> 0.000707"
    using pb by (simp_all add: x_def radians_def)
  have yb: "0.000065 \<le> y" "y \<le> 0.000066"
    using pb by (simp_all add: y_def radians_def)
  have p1b: "0 \<le> p1" "p1 \<le> 0.34"
    using pb by (simp_all add: p1_def radians_def)
  have p2b: "0 \<le> p2" "p2 \<le> 0.34"
    using pb by (simp_all add: p2_def radians_def)
  have sx: "0.00070499 \<le> sin x" "sin x \<le> 0.000707"
    using sin_between [of "0.000705" x "0.000707"] xb by (simp_all add: power_divide)
  have sy: "0.0000649 \<le> sin y" "sin y \<le> 0.000066"
    using sin_between [of "0.000065" y "0.000066"] yb by (simp_all add: power_divide)
  have c1: "0.94 \<le> cos p1" "cos p1 \<le> 1"
    using cos_between [of p1 "0.34"] p1b by (simp_all add: power_divide)
  have c2: "0.94 \<le> cos p2" "cos p2 \<le> 1"
    using cos_between [of p2 "0.34"] p2b by (simp_all add: power_divide)
  have sx2: "0.00070499\<^sup>2 \<le> (sin x)\<^sup>2" "(sin x)\<^sup>2 \<le> 0.000707\<^sup>2"
    using sx by (auto intro!: power_mono)
  have sy2: "0.0000649\<^sup>2 \<le> (sin y)\<^sup>2" "(sin y)\<^sup>2 \<le> 0.000066\<^sup>2"
    using sy by (auto intro!: power_mono)
  have c0: "0 \<le> cos p1" "0 \<le> cos p2" using c1(1) c2(1) by simp_all
  have cc1: "0.94 * 0.94 \<le> cos p1 * cos p2"
    by (rule mult_mono [OF c1(1) c2(1) c0(1)]) simp
  have cc2: "cos p1 * cos p2 \<le> 1 * 1"
    by (rule mult_mono [OF c1(2) c2(2) _ c0(2)]) simp
  note cc = cc1 cc2
  have cc0: "0 \<le> cos p1 * cos p2" using c0 by simp
  have t1: "0.94 * 0.94 * 0.0000649\<^sup>2 \<le> cos p1 * cos p2 * (sin y)\<^sup>2"
    by (rule mult_mono [OF cc(1) sy2(1) cc0]) simp
  have t2: "cos p1 * cos p2 * (sin y)\<^sup>2 \<le> 1 * 1 * 0.000066\<^sup>2"
    by (rule mult_mono [OF cc(2) sy2(2)]) simp_all
  note t = t1 t2
  have a: "haversine_a 18.9402 72.8351 19.0211 72.8426
      = (sin x)\<^sup>2 + cos p1 * cos p2 * (sin y)\<^sup>2"
    by (simp add: haversine_a_def x_def y_def p1_def p2_def)
  have lo: "(9 / 12742 :: real)\<^sup>2 \<le> 0.00070499\<^sup>2 + 0.94 * 0.94 * 0.0000649\<^sup>2"
    by (simp add: power_divide)
  have hi: "0.000707\<^sup>2 + 1 * 1 * 0.000066\<^sup>2 \<le> (0.000715 :: real)\<^sup>2"
    by (simp add: power_divide)
  show ?thesis unfolding a using sx2 t lo hi by linarith
qed

lemma cst_dadar_haversine:
  "\<exists>d. haversine 18.9402 72.8351 19.0211 72.8426 = Inr d \<and> 9 \<le> d \<and> d \<le> 9.2"
proof -
  define a :: real where "a = haversine_a 18.9402 72.8351 19.0211 72.8426"
  have ab: "(9 / 12742)\<^sup>2 \<le> a" "a \<le> 0.000715\<^sup>2"
    using cst_dadar_a by (simp_all add: a_def)
  have a01: "0 \<le> a" "a < 1"
    using ab zero_le_power2 [of "9 / 12742 :: real"] by (simp_all add: power_divide)
  have u: "(0.000715 :: real)\<^sup>2 \<le> (9.2 / 12742 - (9.2 / 12742) ^ 3 / 6)\<^sup>2"
    by (simp add: power_divide)
  have b: "9 / 12742 \<le> arcsin (sqrt a) \<and> arcsin (sqrt a) \<le> 9.2 / 12742"
    by (rule arcsin_sqrt_between) (use ab u in \<open>simp_all add: power_divide\<close>)
  have "haversine 18.9402 72.8351 19.0211 72.8426 = Inr (6371 * (2 * arcsin (sqrt a)))"
    unfolding haversine_eq a_def [symmetric] by (simp add: atan2_sqrt_arcsin [OF a01])
  then show ?thesis using b by simp
qed

subsection \<open>The query from CST to Dadar in Mumbai\<close>

lemma py_int_between:
  "of_int n \<le> x \<Longrightarrow> x < of_int n + 1 \<Longrightarrow> 0 \<le> n \<Longrightarrow> py_int x = n"
proof -
  assume a: "of_int n \<le> x" "x < of_int n + 1" "0 \<le> n"
  then have "0 \<le> x" by (metis of_int_0_le_iff order_trans)
  moreover have "\<lfloor>x\<rfloor> = n" using a by (simp add: floor_eq_iff)
  ultimately show ?thesis by (simp add: py_int_def)
qed

lemma cst_dadar_resolve:
  "resolve_coords mumbai_coordinates ''CST'' ''Dadar''
     = Inr (Some (18.9402, 72.8351), Some (19.0211, 72.8426))"
  by code_simp

lemma cst_dadar_query:
  "\<exists>d. query_distance ''CST'' ''Dadar'' ''Mumbai'' = Inr (d, (18.9402, 72.8351))
       \<and> 9 \<le> d \<and> d \<le> 9.2"
proof -
  obtain d where "haversine 18.9402 72.8351 19.0211 72.8426 = Inr d" "9 \<le> d" "d \<le> 9.2"
    using cst_dadar_haversine by blast
  then show ?thesis
    by (simp add: query_distance_def coordinates_of_def cst_dadar_resolve)
qed

lemma duration_simps:
  "duration_minutes (bus_route d) = py_int (d * 4)"
  "duration_minutes (train_route d sc) = py_int (d * 2)"
  "duration_minutes (metro_route d) = py_int (d * 1.5)"
  "duration_minutes (walking_route d s e) = py_int (d * 12)"
  "duration_minutes (cycling_route d s e) = py_int (d * 4)"
  by (simp_all add: bus_route_def train_route_def metro_route_def walking_route_def
      cycling_route_def)

lemma cst_dadar_durations:
  assumes "9 \<le> d" "d \<le> 9.2"
  shows "duration_minutes (bus_route d) = 36"
    "duration_minutes (train_route d sc) = 18"
    "duration_minutes (metro_route d) = 13"
    "duration_minutes (cycling_route d s e) = 36"
  unfolding duration_simps
  by (rule py_int_between; use assms in simp)+

text \<open>
  Claim C4, as amended. For the city Mumbai, the start \<open>CST\<close>, the end \<open>Dadar\<close> and
  all five modes: the distance lies in [9.0, 9.2] km; the returned routes are, in this
  order, metro (13 min), train (18 min), bus (36 min) and cycling (36 min); there is no
  walking route.
\<close>

theorem cst_dadar_example:
  "\<exists>r d. calculate_routes ''CST'' ''Dadar'' ''Mumbai'' None = Inr r
     \<and> query_distance ''CST'' ''Dadar'' ''Mumbai'' = Inr (d, (18.9402, 72.8351))
     \<and> 9 \<le> d \<and> d \<le> 9.2
     \<and> map mode (routes r) = [''metro'', ''train'', ''bus'', ''cycling'']
     \<and> map duration_minutes (routes r) = [13, 18, 36, 36]
     \<and> total_routes r = 4"
proof -
  obtain d where q: "query_distance ''CST'' ''Dadar'' ''Mumbai'' = Inr (d, (18.9402, 72.8351))"
    and d: "9 \<le> d" "d \<le> 9.2"
    using cst_dadar_query by blast
  let ?sc = "(18.9402, 72.8351) :: coord"
  have g: "generate_routes (requested_modes None) ''CST'' ''Dadar'' ''Mumbai'' d ?sc
      = [bus_route d, train_route d ?sc, metro_route d, cycling_route d ''CST'' ''Dadar'']"
    using d by (simp add: generate_routes_def requested_modes_def default_transport_modes_def
        metro_cities_def)
  have srt: "sort_key duration_minutes
        [bus_route d, train_route d ?sc, metro_route d, cycling_route d ''CST'' ''Dadar'']
      = [metro_route d, train_route d ?sc, bus_route d, cycling_route d ''CST'' ''Dadar'']"
    by (simp add: sort_key_def cst_dadar_durations [OF d])
  show ?thesis
    unfolding calculate_routes_eq [OF q] g srt
    using q d by (simp add: mode_simps cst_dadar_durations [OF d])
qed

text \<open>
  Claim C4 as stated fails: the example says that the cycling route is absent, but the
  distance is below 10 km and the result holds a cycling route.
\<close>

theorem cst_dadar_cycling_present:
  "\<exists>r. calculate_routes ''CST'' ''Dadar'' ''Mumbai'' None = Inr r
     \<and> ''cycling'' \<in> set (map mode (routes r))"
proof -
  obtain d where q: "query_distance ''CST'' ''Dadar'' ''Mumbai'' = Inr (d, (18.9402, 72.8351))"
    and d: "9 \<le> d" "d \<le> 9.2"
    using cst_dadar_query by blast
  have "mode (cycling_route d ''CST'' ''Dadar'')
      \<in> mode ` set (generate_routes (requested_modes None) ''CST'' ''Dadar'' ''Mumbai'' d (18.9402, 72.8351))"
    using d by (simp add: generate_routes_def requested_modes_def default_transport_modes_def)
  then show ?thesis
    unfolding calculate_routes_eq [OF q] by (simp add: mode_simps)
qed

subsection \<open>The numeric fields of the routes\<close>

lemma generate_routes_cases:
  assumes "x \<in> set (generate_routes ms s e c d sc)"
  shows "x = bus_route d \<or> x = train_route d sc \<or> x = metro_route d
       \<or> x = walking_route d s e \<or> x = cycling_route d s e"
  using assms by (auto simp: generate_routes_def split: if_splits)

lemma route_fields_table:
  "route_fields (bus_route d) = table_fields ''bus'' d"
  "route_fields (train_route d sc) = table_fields ''train'' d"
  "route_fields (metro_route d) = table_fields ''metro'' d"
  "route_fields (walking_route d s e) = table_fields ''walking'' d"
  "route_fields (cycling_route d s e) = table_fields ''cycling'' d"
  by (simp_all add: route_fields_def table_fields_def bus_route_def train_route_def
      metro_route_def walking_route_def cycling_route_def mult.commute)

text \<open>
  Claim C1, as amended. For every query the call returns, the distance \<open>d\<close> of the
  resolved coordinates is not negative, and the numeric fields of every returned route
  are those of the table for the route's mode: the duration and the cost are the products
  truncated to an integer (\<open>int\<close>, not \<open>round\<close>), the distance and the emissions are
  rounded to one decimal, the transfers and the congestion level are as documented.
\<close>

theorem route_fields_follow_table:
  "\<exists>r d sc. calculate_routes s e c tm = Inr r \<and> query_distance s e c = Inr (d, sc) \<and> 0 \<le> d
     \<and> (\<forall>x\<in>set (routes r). route_fields x = table_fields (mode x) d)"
proof -
  obtain d sc where q: "query_distance s e c = Inr (d, sc)" and d: "0 \<le> d"
    using query_distance_total by blast
  have "route_fields x = table_fields (mode x) d"
    if "x \<in> set (generate_routes (requested_modes tm) s e c d sc)" for x
    using generate_routes_cases [OF that]
    by (auto simp: mode_simps route_fields_table)
  then show ?thesis
    unfolding calculate_routes_eq [OF q] using q d by simp
qed

theorem route_fields_follow_table_witness:
  "\<exists>r d. calculate_routes ''CST'' ''Dadar'' ''Mumbai'' (Some [''bus'']) = Inr r
     \<and> query_distance ''CST'' ''Dadar'' ''Mumbai'' = Inr (d, (18.9402, 72.8351))
     \<and> routes r = [bus_route d]
     \<and> route_fields (bus_route d) = table_fields ''bus'' d
     \<and> fst (table_fields ''bus'' d) = 36"
proof -
  obtain r d sc where r: "calculate_routes ''CST'' ''Dadar'' ''Mumbai'' (Some [''bus'']) = Inr r"
    and q: "query_distance ''CST'' ''Dadar'' ''Mumbai'' = Inr (d, sc)"
    and t: "\<forall>x\<in>set (routes r). route_fields x = table_fields (mode x) d"
    using route_fields_follow_table [of "''CST''" "''Dadar''" "''Mumbai''" "Some [''bus'']"]
    by blast
  obtain d' where q': "query_distance ''CST'' ''Dadar'' ''Mumbai'' = Inr (d', (18.9402, 72.8351))"
    and d': "9 \<le> d'" "d' \<le> 9.2"
    using cst_dadar_query by blast
  have e: "d' = d" "sc = (18.9402, 72.8351)" using q q' by simp_all
  have rr: "routes r = [bus_route d]"
    using r unfolding calculate_routes_eq [OF q]
    by (auto simp: generate_routes_def requested_modes_def)
  have "route_fields (bus_route d) = table_fields (mode (bus_route d)) d"
    using t rr by simp
  then have f: "route_fields (bus_route d) = table_fields ''bus'' d"
    by (simp add: mode_simps)
  have "fst (route_fields (bus_route d)) = 36"
    using cst_dadar_durations(1) [of d] d' e by (simp add: route_fields_def)
  then show ?thesis using r q rr f e by simp
qed

text \<open>
  Claim C1 as stated fails: from CST to Dadar the metro route lasts
  \<open>int(1.5 * d) = 13\<close> minutes, while \<open>round(1.5 * d)\<close> is 14.
\<close>

theorem metro_duration_truncated_not_rounded:
  "\<exists>r d. calculate_routes ''CST'' ''Dadar'' ''Mumbai'' (Some [''metro'']) = Inr r
     \<and> query_distance ''CST'' ''Dadar'' ''Mumbai'' = Inr (d, (18.9402, 72.8351))
     \<and> map mode (routes r) = [''metro'']
     \<and> map duration_minutes (routes r) = [13]
     \<and> py_round (1.5 * d) = 14"
proof -
  obtain d where q: "query_distance ''CST'' ''Dadar'' ''Mumbai'' = Inr (d, (18.9402, 72.8351))"
    and d: "9 \<le> d" "d \<le> 9.2"
    using cst_dadar_query by blast
  have g: "generate_routes (requested_modes (Some [''metro''])) ''CST'' ''Dadar'' ''Mumbai'' d
      (18.9402, 72.8351) = [metro_route d]"
    by (simp add: generate_routes_def requested_modes_def metro_cities_def)
  have fl: "\<lfloor>1.5 * d\<rfloor> = 13" using d by (simp add: floor_eq_iff)
  have "py_round (1.5 * d) = 14"
    unfolding py_round_def Let_def fl using d by simp
  then show ?thesis
    unfolding calculate_routes_eq [OF q] g
    using q by (simp add: mode_simps cst_dadar_durations [OF d])
qed

subsection \<open>Availability of the modes\<close>

lemma mode_in_generate:
  "(\<exists>x\<in>set (generate_routes ms s e c d sc). mode x = ''train'') \<longleftrightarrow> ''train'' \<in> set ms \<and> 3 < d"
  "(\<exists>x\<in>set (generate_routes ms s e c d sc). mode x = ''metro'')
     \<longleftrightarrow> ''metro'' \<in> set ms \<and> c \<in> set metro_cities"
  "(\<exists>x\<in>set (generate_routes ms s e c d sc). mode x = ''walking'') \<longleftrightarrow> ''walking'' \<in> set ms \<and> d < 5"
  "(\<exists>x\<in>set (generate_routes ms s e c d sc). mode x = ''cycling'') \<longleftrightarrow> ''cycling'' \<in> set ms \<and> d < 10"
  by (auto simp: generate_routes_def mode_simps)

text \<open>
  Claim C3. For every query with distance \<open>d\<close>: when walking is requested, a walking
  route is returned iff \<open>d < 5\<close>; when train is requested, a train route iff \<open>d > 3\<close>;
  when cycling is requested, a cycling route iff \<open>d < 10\<close>; when metro is requested, a
  metro route iff the city is one of Mumbai, Delhi, Bangalore, Chennai, Hyderabad, Kolkata.
\<close>

theorem mode_availability:
  "\<exists>r d sc. calculate_routes s e c tm = Inr r \<and> query_distance s e c = Inr (d, sc)
     \<and> (''walking'' \<in> set (requested_modes tm) \<longrightarrow>
          ((\<exists>x\<in>set (routes r). mode x = ''walking'') \<longleftrightarrow> d < 5))
     \<and> (''train'' \<in> set (requested_modes tm) \<longrightarrow>
          ((\<exists>x\<in>set (routes r). mode x = ''train'') \<longleftrightarrow> 3 < d))
     \<and> (''cycling'' \<in> set (requested_modes tm) \<longrightarrow>
          ((\<exists>x\<in>set (routes r). mode x = ''cycling'') \<longleftrightarrow> d < 10))
     \<and> (''metro'' \<in> set (requested_modes tm) \<longrightarrow>
          ((\<exists>x\<in>set (routes r). mode x = ''metro'')
             \<longleftrightarrow> c \<in> {''Mumbai'', ''Delhi'', ''Bangalore'', ''Chennai'', ''Hyderabad'', ''Kolkata''}))"
proof -
  obtain d sc where q: "query_distance s e c = Inr (d, sc)"
    using query_distance_total by blast
  have m: "set metro_cities = {''Mumbai'', ''Delhi'', ''Bangalore'', ''Chennai'', ''Hyderabad'', ''Kolkata''}"
    by (simp add: metro_cities_def)
  show ?thesis
    unfolding calculate_routes_eq [OF q] using q
    by (simp add: mode_in_generate m del: insert_iff)
qed

theorem mode_availability_witness:
  "\<exists>r. calculate_routes ''CST'' ''Dadar'' ''Mumbai'' None = Inr r
     \<and> \<not> (\<exists>x\<in>set (routes r). mode x = ''walking'')
     \<and> (\<exists>x\<in>set (routes r). mode x = ''train'')
     \<and> (\<exists>x\<in>set (routes r). mode x = ''cycling'')
     \<and> (\<exists>x\<in>set (routes r). mode x = ''metro'')"
proof -
  have m: "''walking'' \<in> set (requested_modes None)" "''train'' \<in> set (requested_modes None)"
    "''cycling'' \<in> set (requested_modes None)" "''metro'' \<in> set (requested_modes None)"
    by (simp_all add: requested_modes_def default_transport_modes_def)
  obtain d' where q': "query_distance ''CST'' ''Dadar'' ''Mumbai'' = Inr (d', (18.9402, 72.8351))"
    and d': "9 \<le> d'" "d' \<le> 9.2"
    using cst_dadar_query by blast
  obtain r d sc where r: "calculate_routes ''CST'' ''Dadar'' ''Mumbai'' None = Inr r"
    and q: "query_distance ''CST'' ''Dadar'' ''Mumbai'' = Inr (d, sc)"
    and w: "(\<exists>x\<in>set (routes r). mode x = ''walking'') \<longleftrightarrow> d < 5"
    and t: "(\<exists>x\<in>set (routes r). mode x = ''train'') \<longleftrightarrow> 3 < d"
    and c: "(\<exists>x\<in>set (routes r). mode x = ''cycling'') \<longleftrightarrow> d < 10"
    and me: "(\<exists>x\<in>set (routes r). mode x = ''metro'')
       \<longleftrightarrow> ''Mumbai'' \<in> {''Mumbai'', ''Delhi'', ''Bangalore'', ''Chennai'', ''Hyderabad'', ''Kolkata''}"
    using mode_availability [of "''CST''" "''Dadar''" "''Mumbai''" None] m by blast
  have "d = d'" using q q' by simp
  then show ?thesis using r w t c me d' by simp
qed

text \<open>
  Claim C7. Every query returns a result (no exception); when no requested mode passes
  its availability predicate, the route list is empty and \<open>total_routes\<close> is 0.
\<close>

theorem no_available_mode_empty_result:
  "\<exists>r d sc. calculate_routes s e c tm = Inr r \<and> query_distance s e c = Inr (d, sc)
     \<and> ((\<forall>m\<in>set (requested_modes tm). \<not> mode_available m d c)
          \<longrightarrow> routes r = [] \<and> total_routes r = 0)"
proof -
  obtain d sc where q: "query_distance s e c = Inr (d, sc)"
    using query_distance_total by blast
  have "generate_routes (requested_modes tm) s e c d sc = []"
    if "\<forall>m\<in>set (requested_modes tm). \<not> mode_available m d c"
  proof -
    have "\<not> mode_available ''bus'' d c \<or> ''bus'' \<notin> set (requested_modes tm)"
      "\<not> mode_available ''train'' d c \<or> ''train'' \<notin> set (requested_modes tm)"
      "\<not> mode_available ''metro'' d c \<or> ''metro'' \<notin> set (requested_modes tm)"
      "\<not> mode_available ''walking'' d c \<or> ''walking'' \<notin> set (requested_modes tm)"
      "\<not> mode_available ''cycling'' d c \<or> ''cycling'' \<notin> set (requested_modes tm)"
      using that by blast+
    then show ?thesis
      by (simp add: generate_routes_def mode_available_def)
  qed
  then show ?thesis
    unfolding calculate_routes_eq [OF q] using q by simp
qed

theorem no_available_mode_empty_result_witness:
  "\<exists>r. calculate_routes ''CST'' ''Dadar'' ''Mumbai'' (Some [''walking'']) = Inr r
     \<and> routes r = [] \<and> total_routes r = 0"
proof -
  obtain d' where q': "query_distance ''CST'' ''Dadar'' ''Mumbai'' = Inr (d', (18.9402, 72.8351))"
    and d': "9 \<le> d'" "d' \<le> 9.2"
    using cst_dadar_query by blast
  obtain r d sc where r: "calculate_routes ''CST'' ''Dadar'' ''Mumbai'' (Some [''walking'']) = Inr r"
    and q: "query_distance ''CST'' ''Dadar'' ''Mumbai'' = Inr (d, sc)"
    and i: "(\<forall>m\<in>set (requested_modes (Some [''walking''])). \<not> mode_available m d ''Mumbai'')
          \<longrightarrow> routes r = [] \<and> total_routes r = 0"
    using no_available_mode_empty_result [of "''CST''" "''Dadar''" "''Mumbai''" "Some [''walking'']"]
    by blast
  have "d = d'" using q q' by simp
  then have "\<forall>m\<in>set (requested_modes (Some [''walking''])). \<not> mode_available m d ''Mumbai''"
    using d' by (simp add: requested_modes_def mode_available_def)
  then show ?thesis using r i by blast
qed

subsection \<open>Resolution of the two locations\<close>

lemma resolve_coords_filter:
  "resolve_coords (coordinates_of c) s e =
     Inr (Some (if filter (\<lambda>kv. sublist (lower (fst kv)) (lower s)) (coordinates_of c) = []
                then snd (hd (coordinates_of c))
                else snd (last (filter (\<lambda>kv. sublist (lower (fst kv)) (lower s)) (coordinates_of c)))),
          Some (if filter (\<lambda>kv. sublist (lower (fst kv)) (lower e)) (coordinates_of c) = []
                then snd (last (coordinates_of c))
                else snd (last (filter (\<lambda>kv. sublist (lower (fst kv)) (lower e)) (coordinates_of c)))))"
  using resolve_coords_eq [of "coordinates_of c" s e] coordinates_of_ok [of c]
  by (simp add: str_contains_sublist)

lemma query_distance_resolved:
  "\<exists>sc ec d. resolve_coords (coordinates_of c) s e = Inr (Some sc, Some ec)
     \<and> haversine (fst sc) (snd sc) (fst ec) (snd ec) = Inr d
     \<and> query_distance s e c = Inr (d, sc)"
proof -
  obtain sc ec where r: "resolve_coords (coordinates_of c) s e = Inr (Some sc, Some ec)"
    using resolve_coords_filter [of c s e] by blast
  obtain d where h: "haversine (fst sc) (snd sc) (fst ec) (snd ec) = Inr d"
    using haversine_nonneg by blast
  have "query_distance s e c = Inr (d, sc)"
    using h by (simp add: query_distance_def r split_beta)
  then show ?thesis using r h by blast
qed

text \<open>
  Claim C5. Each location is resolved by testing, for every key of the city's coordinate
  mapping, whether the lower-cased key occurs as a substring of the lower-cased input
  (the last matching key in the mapping's order wins). If no key matches the start, the
  start coordinate is that of the first entry; if no key matches the end, the end
  coordinate is that of the last entry. The distance of the query is the haversine
  distance of these two coordinates.
\<close>

theorem location_resolution:
  "\<exists>sc ec d. resolve_coords (coordinates_of c) s e = Inr (Some sc, Some ec)
     \<and> haversine (fst sc) (snd sc) (fst ec) (snd ec) = Inr d
     \<and> query_distance s e c = Inr (d, sc)
     \<and> ((\<forall>kv\<in>set (coordinates_of c). \<not> sublist (lower (fst kv)) (lower s))
            \<longrightarrow> sc = snd (hd (coordinates_of c)))
     \<and> ((\<exists>kv\<in>set (coordinates_of c). sublist (lower (fst kv)) (lower s))
            \<longrightarrow> sc = snd (last (filter (\<lambda>kv. sublist (lower (fst kv)) (lower s)) (coordinates_of c))))
     \<and> ((\<forall>kv\<in>set (coordinates_of c). \<not> sublist (lower (fst kv)) (lower e))
            \<longrightarrow> ec = snd (last (coordinates_of c)))
     \<and> ((\<exists>kv\<in>set (coordinates_of c). sublist (lower (fst kv)) (lower e))
            \<longrightarrow> ec = snd (last (filter (\<lambda>kv. sublist (lower (fst kv)) (lower e)) (coordinates_of c))))"
proof -
  let ?cs = "coordinates_of c"
  let ?fs = "filter (\<lambda>kv. sublist (lower (fst kv)) (lower s)) ?cs"
  let ?fe = "filter (\<lambda>kv. sublist (lower (fst kv)) (lower e)) ?cs"
  define sc where "sc = (if ?fs = [] then snd (hd ?cs) else snd (last ?fs))"
  define ec where "ec = (if ?fe = [] then snd (last ?cs) else snd (last ?fe))"
  have r: "resolve_coords ?cs s e = Inr (Some sc, Some ec)"
    unfolding sc_def ec_def by (rule resolve_coords_filter)
  obtain d where h: "haversine (fst sc) (snd sc) (fst ec) (snd ec) = Inr d"
    using haversine_nonneg by blast
  have q: "query_distance s e c = Inr (d, sc)"
    using h by (simp add: query_distance_def r split_beta)
  have fs: "?fs = [] \<longleftrightarrow> (\<forall>kv\<in>set ?cs. \<not> sublist (lower (fst kv)) (lower s))"
    by (simp add: filter_empty_conv)
  have fe: "?fe = [] \<longleftrightarrow> (\<forall>kv\<in>set ?cs. \<not> sublist (lower (fst kv)) (lower e))"
    by (simp add: filter_empty_conv)
  have "(?fs = [] \<longrightarrow> sc = snd (hd ?cs)) \<and> (?fs \<noteq> [] \<longrightarrow> sc = snd (last ?fs))
      \<and> (?fe = [] \<longrightarrow> ec = snd (last ?cs)) \<and> (?fe \<noteq> [] \<longrightarrow> ec = snd (last ?fe))"
    by (simp add: sc_def ec_def)
  then show ?thesis using r h q unfolding fs fe by blast
qed

theorem location_resolution_witness:
  "resolve_coords (coordinates_of ''Pune'') ''nowhere'' ''EAST gate''
     = Inr (Some (20.0, 77.0), Some (20.0, 77.1))
   \<and> resolve_coords (coordinates_of ''Pune'') ''North End'' ''nowhere''
     = Inr (Some (20.1, 77.0), Some (20.08, 77.08))"
proof -
  have cs: "coordinates_of ''Pune'' = placeholder_coordinates"
    by (simp add: coordinates_of_def)
  have n: "lower ''nowhere'' = ''nowhere''" "lower ''EAST gate'' = ''east gate''"
    "lower ''North End'' = ''north end''"
    by code_simp+
  have f2: "filter (\<lambda>kv. sublist (lower (fst kv)) ''east gate'') placeholder_coordinates
      = [(''East'', (20.0, 77.1))]"
    by code_simp
  have f3: "filter (\<lambda>kv. sublist (lower (fst kv)) ''north end'') placeholder_coordinates
      = [(''North'', (20.1, 77.0))]"
    by code_simp
  have hl: "snd (hd placeholder_coordinates) = (20.0, 77.0)"
    "snd (last placeholder_coordinates) = (20.08, 77.08)"
    by (simp_all add: placeholder_coordinates_def)
  have e1: "\<forall>kv\<in>set placeholder_coordinates. \<not> sublist (lower (fst kv)) ''nowhere''"
    by code_simp
  have e2: "\<exists>kv\<in>set placeholder_coordinates. sublist (lower (fst kv)) ''east gate''"
    by code_simp
  have e3: "\<exists>kv\<in>set placeholder_coordinates. sublist (lower (fst kv)) ''north end''"
    by code_simp
  have a: "resolve_coords (coordinates_of ''Pune'') ''nowhere'' ''EAST gate''
     = Inr (Some (20.0, 77.0), Some (20.0, 77.1))"
  proof -
    obtain sc ec where r: "resolve_coords placeholder_coordinates ''nowhere'' ''EAST gate''
        = Inr (Some sc, Some ec)"
      and i1: "(\<forall>kv\<in>set placeholder_coordinates. \<not> sublist (lower (fst kv)) ''nowhere'')
            \<longrightarrow> sc = snd (hd placeholder_coordinates)"
      and i2: "(\<exists>kv\<in>set placeholder_coordinates. sublist (lower (fst kv)) ''east gate'')
            \<longrightarrow> ec = snd (last (filter (\<lambda>kv. sublist (lower (fst kv)) ''east gate'')
                  placeholder_coordinates))"
      using location_resolution [of "''Pune''" "''nowhere''" "''EAST gate''"]
      unfolding cs n by blast
    have "sc = (20.0, 77.0)" using i1 e1 hl by simp
    moreover have "ec = (20.0, 77.1)" using i2 e2 unfolding f2 by simp
    ultimately show ?thesis using r unfolding cs by simp
  qed
  have b: "resolve_coords (coordinates_of ''Pune'') ''North End'' ''nowhere''
     = Inr (Some (20.1, 77.0), Some (20.08, 77.08))"
  proof -
    obtain sc ec where r: "resolve_coords placeholder_coordinates ''North End'' ''nowhere''
        = Inr (Some sc, Some ec)"
      and i1: "(\<exists>kv\<in>set placeholder_coordinates. sublist (lower (fst kv)) ''north end'')
            \<longrightarrow> sc = snd (last (filter (\<lambda>kv. sublist (lower (fst kv)) ''north end'')
                  placeholder_coordinates))"
      and i2: "(\<forall>kv\<in>set placeholder_coordinates. \<not> sublist (lower (fst kv)) ''nowhere'')
            \<longrightarrow> ec = snd (last placeholder_coordinates)"
      using location_resolution [of "''Pune''" "''North End''" "''nowhere''"]
      unfolding cs n by blast
    have "sc = (20.1, 77.0)" using i1 e3 unfolding f3 by simp
    moreover have "ec = (20.08, 77.08)" using i2 e1 hl by simp
    ultimately show ?thesis using r unfolding cs by simp
  qed
  show ?thesis using a b by simp
qed

subsection \<open>Cities without data\<close>

lemma not_known_city:
  "c \<notin> fst ` set city_infrastructure \<Longrightarrow> c \<noteq> ''Mumbai'' \<and> map_of city_infrastructure c = None"
  by (auto simp: city_infrastructure_def)

text \<open>
  Claim C8. For a city that is not a key of the infrastructure table, the loader returns
  the record of four empty lists, and \<open>calculate_routes\<close> with the default modes
  returns a non-empty route list, computed from the coordinates that the placeholder
  mapping resolves.
\<close>

theorem unknown_city_fallback:
  "c \<notin> fst ` set city_infrastructure \<Longrightarrow>
     load_transport_infrastructure c
       = \<lparr>railway_stations = [], airports = [], bus_stations = [], metro_stations = []\<rparr>
     \<and> (\<exists>r sc ec d. calculate_routes s e c None = Inr r \<and> routes r \<noteq> []
           \<and> resolve_coords placeholder_coordinates s e = Inr (Some sc, Some ec)
           \<and> haversine (fst sc) (snd sc) (fst ec) (snd ec) = Inr d
           \<and> routes r = sort_key duration_minutes
                (generate_routes default_transport_modes s e c d sc))"
proof -
  assume u: "c \<notin> fst ` set city_infrastructure"
  have nm: "c \<noteq> ''Mumbai''" and mo: "map_of city_infrastructure c = None"
    using not_known_city [OF u] by simp_all
  have cs: "coordinates_of c = placeholder_coordinates"
    using nm by (simp add: coordinates_of_def)
  obtain sc ec d where r: "resolve_coords (coordinates_of c) s e = Inr (Some sc, Some ec)"
    and h: "haversine (fst sc) (snd sc) (fst ec) (snd ec) = Inr d"
    and q: "query_distance s e c = Inr (d, sc)"
    using query_distance_resolved [of c s e] by blast
  have ne: "sort_key duration_minutes (generate_routes default_transport_modes s e c d sc) \<noteq> []"
    using length_sort [of duration_minutes "generate_routes default_transport_modes s e c d sc"]
    by (auto simp: generate_routes_def default_transport_modes_def simp del: length_sort)
  have l: "load_transport_infrastructure c
       = \<lparr>railway_stations = [], airports = [], bus_stations = [], metro_stations = []\<rparr>"
    by (simp add: load_transport_infrastructure_def mo)
  show ?thesis
    using l ne r h unfolding cs calculate_routes_eq [OF q]
    by (simp add: requested_modes_def)
qed

theorem unknown_city_fallback_witness:
  "load_transport_infrastructure ''Pune''
       = \<lparr>railway_stations = [], airports = [], bus_stations = [], metro_stations = []\<rparr>
   \<and> (\<exists>r. calculate_routes ''Station Road'' ''Airport'' ''Pune'' None = Inr r \<and> routes r \<noteq> [])"
proof -
  have "''Pune'' \<notin> fst ` set city_infrastructure"
    by (simp add: city_infrastructure_def)
  from unknown_city_fallback [OF this, of "''Station Road''" "''Airport''"]
  show ?thesis by blast
qed

end
